theory Spec2Isabelle
  imports Main "HOL-Library.AList" "HOL-Library.Multiset" "HOL-Library.Product_Lexorder"
    "HOL-Library.Sublist"
begin

section \<open>Values of the host language\<close>

text \<open>
  A property of a JavaScript object is absent (\<open>undefined\<close>), \<open>null\<close>, or holds a value.
  The controller tests with strict equality (\<open>===\<close>), which tells the three apart.
\<close>

datatype 'a jsval = Undefined | Null | Val 'a

text \<open>
  Timestamps (\<open>new Date().toISOString()\<close>, the \<open>date\<close> columns) are kept as instants;
  the clock readings are parameters of the operations that read the clock.
\<close>

type_synonym timestamp = nat

text \<open>
  The filter of the listing endpoint is a decoded JSON object. An object is the list of its
  properties; a property is read with \<open>map_of\<close> and written with \<open>AList.update\<close>, and
  nothing observes the order of the list. Numbers are kept as integers.
\<close>

datatype json =
    JNull
  | JBool bool
  | JNum int
  | JStr string
  | JArr "json list"
  | JObj "(string \<times> json) list"

type_synonym obj = "(string \<times> json) list"

text \<open>The decimal numeral of an index, the name of an array's or a string's property.\<close>

fun showNat :: "nat \<Rightarrow> string" where
  "showNat n =
     (if n < 10 then [char_of (48 + n)]
      else showNat (n div 10) @ [char_of (48 + n mod 10)])"

declare showNat.simps [simp del]

definition indexed :: "json list \<Rightarrow> obj" where
  "indexed xs = zip (map showNat [0..<length xs]) xs"

text \<open>
  The own enumerable properties that a spread \<open>{...src}\<close> copies: those of an object, the
  indices of an array or of a string, none for \<open>undefined\<close>, \<open>null\<close>, numbers and booleans.
\<close>

fun ownProps :: "json option \<Rightarrow> obj" where
  "ownProps (Some (JObj ps)) = ps"
| "ownProps (Some (JArr xs)) = indexed xs"
| "ownProps (Some (JStr s)) = indexed (map (\<lambda>c. JStr [c]) s)"
| "ownProps _ = []"

definition spread :: "obj \<Rightarrow> json option \<Rightarrow> obj" where
  "spread target src = fold (\<lambda>(k, v). AList.update k v) (ownProps src) target"

definition setProp :: "string \<Rightarrow> json \<Rightarrow> obj \<Rightarrow> obj" where
  "setProp k v target = AList.update k v target"

section \<open>The Course model (models/course.model.ts)\<close>

record Course =
  id' :: "int jsval"
  name :: "string jsval"
  status :: "string jsval"
  createdAt :: "timestamp jsval"
  updatedAt :: "timestamp jsval"
  deletedAt :: "timestamp jsval"

section \<open>Errors and the state of the service\<close>

text \<open>
  The three \<open>HttpErrors\<close> the controller throws. A \<open>BadRequest\<close> keeps which of the two
  messages it carries (\<open>Course name is required\<close>, or \<open>... is not a valid status\<close> with the
  offending status); the rest of the message text is left out.
\<close>

datatype reason = NameRequired | InvalidStatus "string jsval"

datatype httpError = BadRequest reason | NotFound | Gone

fun statusCode :: "httpError \<Rightarrow> nat" where
  "statusCode (BadRequest r) = 400"
| "statusCode NotFound = 404"
| "statusCode Gone = 410"

text \<open>The calls the controller issues to the repository, in the order they are made.\<close>

datatype storeCall =
    CreateCall Course
  | FindCall obj
  | FindByIdCall int "obj option"
  | ReplaceByIdCall int Course

text \<open>
  The state: the table of courses in insertion order, the generator of ids, the log of
  repository calls, and the \<open>Location\<close> header of the response (kept as the id that
  \<open>/courses/{id}\<close> points to).
\<close>

record world =
  rows :: "Course list"
  nextId :: int
  calls :: "storeCall list"
  locationHeader :: "int jsval option"

definition emptyWorld :: world where
  "emptyWorld = \<lparr>rows = [], nextId = 1, calls = [], locationHeader = None\<rparr>"

section \<open>The repository\<close>

text \<open>
  The repository class (repositories/course.repository.ts) and the framework's CRUD
  repository that it extends are not in the sources. The spec requires of the store
  \<open>create(record) -> record\<close>, \<open>find(filter) -> [record]\<close> (equality filter on
  \<open>deletedAt\<close>, ascending sort on \<open>createdAt\<close>, field projection),
  \<open>findById(id) -> record | NotFound\<close> and \<open>replaceById(id, record) -> success | NotFound\<close>.
  Every definition of this section is modelled from that interface.
\<close>

text \<open>
  Modelled from the spec: the default of a property of the model
  (\<open>default: () => new Date()\<close>), missing with the repository that applies it. It fills
  an absent property.
\<close>

definition withDefault :: "'a \<Rightarrow> 'a jsval \<Rightarrow> 'a jsval" where
  "withDefault d v = (if v = Undefined then Val d else v)"

text \<open>
  Modelled from the spec: the repository's \<open>create(record) -> record\<close>, which is missing.
  It assigns the id and the timestamps: \<open>createdAt\<close> and \<open>updatedAt\<close> take their default
  when absent; \<open>deletedAt\<close> has no default and an absent one is persisted as \<open>null\<close> (the
  spec's example: \<open>createdAt=updatedAt=now, deletedAt=null\<close>).
\<close>

definition storeCreate :: "timestamp \<Rightarrow> Course \<Rightarrow> world \<Rightarrow> Course \<times> world" where
  "storeCreate now course w =
     (let newCourse = course
            \<lparr>id' := Val (nextId w),
             createdAt := withDefault now (createdAt course),
             updatedAt := withDefault now (updatedAt course),
             deletedAt := (if deletedAt course = Undefined then Null else deletedAt course)\<rparr>
      in (newCourse,
          w\<lparr>rows := rows w @ [newCourse],
            nextId := nextId w + 1,
            calls := calls w @ [CreateCall course]\<rparr>))"

text \<open>
  Modelled from the spec: the row that the missing repository holds under an id (the first
  one, should the table hold several).
\<close>

definition lookupRow :: "int \<Rightarrow> world \<Rightarrow> Course option" where
  "lookupRow i w = find (\<lambda>r. id' r = Val i) (rows w)"

text \<open>
  Modelled from the spec: the repository's \<open>findById(id) -> record | NotFound\<close>, which is
  missing. The spec's interface takes the id only; the filter that the controller passes
  along is logged and has no effect.
\<close>

definition storeFindById :: "int \<Rightarrow> obj option \<Rightarrow> world \<Rightarrow> (httpError + Course) \<times> world" where
  "storeFindById i flt w =
     ((case lookupRow i w of
         None \<Rightarrow> Inl NotFound
       | Some r \<Rightarrow> Inr r),
      w\<lparr>calls := calls w @ [FindByIdCall i flt]\<rparr>)"

text \<open>
  Modelled from the spec: the repository's \<open>replaceById(id, record) -> success | NotFound\<close>,
  which is missing. The record stored under the id becomes the replacement as it is given;
  the id itself never changes.
\<close>

definition storeReplaceById :: "int \<Rightarrow> Course \<Rightarrow> world \<Rightarrow> (httpError + unit) \<times> world" where
  "storeReplaceById i course w =
     (if lookupRow i w = None
      then (Inl NotFound, w\<lparr>calls := calls w @ [ReplaceByIdCall i course]\<rparr>)
      else (Inr (),
            w\<lparr>rows := map (\<lambda>r. if id' r = Val i then course\<lparr>id' := Val i\<rparr> else r) (rows w),
              calls := calls w @ [ReplaceByIdCall i course]\<rparr>))"

text \<open>
  Modelled from the spec: the equality filter on \<open>deletedAt\<close> of the missing repository's
  \<open>find\<close>. \<open>null\<close> matches the rows whose \<open>deletedAt\<close> is \<open>null\<close>, an instant the rows
  deleted at that instant.
\<close>

definition deletedAtEq :: "json \<Rightarrow> Course \<Rightarrow> bool" where
  "deletedAtEq v r =
     (case deletedAt r of
        Null \<Rightarrow> v = JNull
      | Val t \<Rightarrow> v = JNum (int t)
      | Undefined \<Rightarrow> False)"

text \<open>
  Modelled from the spec: the \<open>where\<close> of the missing repository's \<open>find\<close>. The clause
  \<open>{deletedAt: {eq: v}}\<close> is the equality filter; no other clause restricts the result.
\<close>

fun whereHolds :: "json option \<Rightarrow> Course \<Rightarrow> bool" where
  "whereHolds (Some (JObj [(k, JObj [(opr, v)])])) r =
     (if k = ''deletedAt'' \<and> opr = ''eq'' then deletedAtEq v r else True)"
| "whereHolds _ r = True"

text \<open>
  Modelled from the spec: the sort key of the missing repository's ascending sort on
  \<open>createdAt\<close>. Dated rows come in the order of their instants, rows without a
  \<open>createdAt\<close> after them.
\<close>

fun createdKey :: "timestamp jsval \<Rightarrow> nat \<times> nat" where
  "createdKey (Val t) = (0, t)"
| "createdKey _ = (1, 0)"

text \<open>
  Modelled from the spec: the \<open>order\<close> of the missing repository's \<open>find\<close>.
  \<open>['createdAt ASC']\<close> is the ascending sort on \<open>createdAt\<close> (stable); any other value
  leaves the rows in the order of the table.
\<close>

definition orderRows :: "json option \<Rightarrow> Course list \<Rightarrow> Course list" where
  "orderRows ord rs =
     (if ord = Some (JArr [JStr ''createdAt ASC''])
      then sort_key (\<lambda>r. createdKey (createdAt r)) rs
      else rs)"

text \<open>
  Modelled from the spec: the field projection of the missing repository's \<open>find\<close>. A
  property is kept when \<open>fields\<close> gives it \<open>true\<close> and is absent from the result otherwise.
\<close>

definition keepField :: "obj \<Rightarrow> string \<Rightarrow> 'a jsval \<Rightarrow> 'a jsval" where
  "keepField fs k v = (if map_of fs k = Some (JBool True) then v else Undefined)"

text \<open>
  Modelled from the spec: the \<open>fields\<close> of the missing repository's \<open>find\<close>; without a
  \<open>fields\<close> object the records come whole.
\<close>

fun project :: "json option \<Rightarrow> Course \<Rightarrow> Course" where
  "project (Some (JObj fs)) r =
     \<lparr>id' = keepField fs ''id'' (id' r),
      name = keepField fs ''name'' (name r),
      status = keepField fs ''status'' (status r),
      createdAt = keepField fs ''createdAt'' (createdAt r),
      updatedAt = keepField fs ''updatedAt'' (updatedAt r),
      deletedAt = keepField fs ''deletedAt'' (deletedAt r)\<rparr>"
| "project _ r = r"

text \<open>
  Modelled from the spec: the repository's \<open>find(filter) -> [record]\<close>, which is missing.
  It reads the \<open>where\<close>, \<open>order\<close> and \<open>fields\<close> of the filter, the three capabilities the
  spec lists; any other property of the filter has no effect.
\<close>

definition storeFind :: "obj \<Rightarrow> world \<Rightarrow> Course list \<times> world" where
  "storeFind flt w =
     (map (project (map_of flt ''fields''))
        (orderRows (map_of flt ''order'')
           (filter (whereHolds (map_of flt ''where'')) (rows w))),
      w\<lparr>calls := calls w @ [FindCall flt]\<rparr>)"

section \<open>The controller (controllers/courses.controller.ts)\<close>

text \<open>
  Each handler takes the state and returns its result, or the error it throws, with the
  state it leaves. \<open>console.log\<close> is not modelled.
\<close>

definition validateStatus :: "string jsval \<Rightarrow> bool" where
  "validateStatus st =
     (if st = Val ''scheduled'' then True
      else if st = Val ''in_production'' then True
      else if st = Val ''available'' then True
      else False)"

definition isDeleted :: "Course \<Rightarrow> bool" where
  "isDeleted course = (\<not> (deletedAt course = Null))"

text \<open>
  \<open>create\<close>: the clock reading is the one the model's defaults take when the store
  persists the record.
\<close>

definition create :: "timestamp \<Rightarrow> Course \<Rightarrow> world \<Rightarrow> (httpError + Course) \<times> world" where
  "create now course w =
     (if name course = Null \<or> name course = Val ''''
      then (Inl (BadRequest NameRequired), w)
      else if \<not> validateStatus (status course)
      then (Inl (BadRequest (InvalidStatus (status course))), w)
      else (case storeCreate now course w of
              (newCourse, w') \<Rightarrow>
                (Inr newCourse, w'\<lparr>locationHeader := Some (id' newCourse)\<rparr>)))"

text \<open>
  \<open>find\<close> (here \<open>find_courses\<close>; the spec's \<open>list\<close>): the filter handed to the
  repository is
  \<open>{...filter, ...filter?.where, where: {deletedAt: {eq: null}}, order: ['createdAt ASC'],
  fields: {id: true, name: true}}\<close>,
  built by \<open>findFilter\<close> from the caller's filter, which may be absent.
\<close>

definition whereOf :: "obj option \<Rightarrow> json option" where
  "whereOf flt = (case flt of None \<Rightarrow> None | Some ps \<Rightarrow> map_of ps ''where'')"

definition findFilter :: "obj option \<Rightarrow> obj" where
  "findFilter flt =
     setProp ''fields'' (JObj [(''id'', JBool True), (''name'', JBool True)])
       (setProp ''order'' (JArr [JStr ''createdAt ASC''])
         (setProp ''where'' (JObj [(''deletedAt'', JObj [(''eq'', JNull)])])
           (spread (spread [] (map_option JObj flt)) (whereOf flt))))"

definition find_courses :: "obj option \<Rightarrow> world \<Rightarrow> Course list \<times> world" where
  "find_courses flt w = storeFind (findFilter flt) w"

text \<open>\<open>findById\<close> (the spec's \<open>getById\<close>), with the caller's optional filter.\<close>

definition findById :: "int \<Rightarrow> obj option \<Rightarrow> world \<Rightarrow> (httpError + Course) \<times> world" where
  "findById i flt w =
     (case storeFindById i flt w of
        (Inl e, w') \<Rightarrow> (Inl e, w')
      | (Inr course, w') \<Rightarrow>
          if isDeleted course then (Inl Gone, w') else (Inr course, w'))"

text \<open>\<open>replaceById\<close>: \<open>now\<close> is the clock reading that becomes \<open>updatedAt\<close>.\<close>

definition replaceById :: "timestamp \<Rightarrow> int \<Rightarrow> Course \<Rightarrow> world \<Rightarrow> (httpError + unit) \<times> world" where
  "replaceById now i course0 w =
     (let course = course0\<lparr>updatedAt := Val now\<rparr> in
      if name course = Null \<or> name course = Val ''''
      then (Inl (BadRequest NameRequired), w)
      else if \<not> validateStatus (status course)
      then (Inl (BadRequest (InvalidStatus (status course))), w)
      else storeReplaceById i course w)"

text \<open>
  \<open>deleteById\<close>: \<open>now\<close> is the clock reading that becomes \<open>deletedAt\<close>, \<open>now'\<close> the later
  one taken inside \<open>replaceById\<close>. The test \<open>course == null\<close> cannot hold of the record that
  \<open>findById\<close> returned, which is an object; the test \<open>isDeleted\<close> is repeated as the
  source repeats it.
\<close>

definition deleteById :: "timestamp \<Rightarrow> timestamp \<Rightarrow> int \<Rightarrow> world \<Rightarrow> (httpError + unit) \<times> world" where
  "deleteById now now' i w =
     (case findById i None w of
        (Inl e, w') \<Rightarrow> (Inl e, w')
      | (Inr course, w') \<Rightarrow>
          if isDeleted course then (Inl Gone, w')
          else replaceById now' i (course\<lparr>deletedAt := Val now\<rparr>) w')"

section \<open>Requests and executions\<close>

text \<open>
  A request names a handler with its arguments and the clock readings it takes; an
  execution handles a list of requests one after the other, each to completion.
\<close>

datatype request =
    Create timestamp Course
  | Find "obj option"
  | FindById int "obj option"
  | ReplaceById timestamp int Course
  | DeleteById timestamp timestamp int

fun handle :: "request \<Rightarrow> world \<Rightarrow> world" where
  "handle (Create now course) w = snd (create now course w)"
| "handle (Find flt) w = snd (find_courses flt w)"
| "handle (FindById i flt) w = snd (findById i flt w)"
| "handle (ReplaceById now i course) w = snd (replaceById now i course w)"
| "handle (DeleteById now now' i) w = snd (deleteById now now' i w)"

fun run :: "request list \<Rightarrow> world \<Rightarrow> world" where
  "run [] w = w"
| "run (req # reqs) w = run reqs (handle req w)"

fun isReplace :: "request \<Rightarrow> bool" where
  "isReplace (ReplaceById now i course) = True"
| "isReplace _ = False"

fun isDelete :: "request \<Rightarrow> bool" where
  "isDelete (DeleteById now now' i) = True"
| "isDelete _ = False"

text \<open>
  \<open>staysDeleted old new\<close>: the table \<open>new\<close> still holds every row of \<open>old\<close>, at its place
  and under its id, and every row that was deleted in \<open>old\<close> is deleted in \<open>new\<close>.
\<close>

fun staysDeleted :: "Course list \<Rightarrow> Course list \<Rightarrow> bool" where
  "staysDeleted [] new = True"
| "staysDeleted (r # old) [] = False"
| "staysDeleted (r # old) (r' # new) =
     (id' r' = id' r \<and> (isDeleted r \<longrightarrow> isDeleted r') \<and> staysDeleted old new)"

text \<open>\<open>idsFresh\<close>: every id in the table was handed out by the generator already.\<close>

definition idsFresh :: "world \<Rightarrow> bool" where
  "idsFresh w = list_all (\<lambda>r. case id' r of Val j \<Rightarrow> j < nextId w | _ \<Rightarrow> True) (rows w)"

section \<open>A sample table\<close>

definition sampleRows :: "Course list" where
  "sampleRows =
     [\<lparr>id' = Val 1, name = Val ''Intro to Go'', status = Val ''scheduled'',
       createdAt = Val 30, updatedAt = Val 30, deletedAt = Null\<rparr>,
      \<lparr>id' = Val 2, name = Val ''Databases'', status = Val ''available'',
       createdAt = Val 10, updatedAt = Val 40, deletedAt = Val 40\<rparr>,
      \<lparr>id' = Val 3, name = Val ''Networks'', status = Val ''in_production'',
       createdAt = Val 20, updatedAt = Val 20, deletedAt = Undefined\<rparr>,
      \<lparr>id' = Val 4, name = Val ''Algebra'', status = Val ''available'',
       createdAt = Val 5, updatedAt = Val 5, deletedAt = Null\<rparr>]"

definition sampleWorld :: world where
  "sampleWorld = \<lparr>rows = sampleRows, nextId = 5, calls = [], locationHeader = None\<rparr>"

definition sampleInput :: Course where
  "sampleInput =
     \<lparr>id' = Undefined, name = Val ''Compilers'', status = Val ''scheduled'',
      createdAt = Undefined, updatedAt = Undefined, deletedAt = Undefined\<rparr>"

section \<open>The handlers in terms of the table\<close>

lemma validateStatus_iff:
  "validateStatus s \<longleftrightarrow> s = Val ''scheduled'' \<or> s = Val ''in_production'' \<or> s = Val ''available''"
  by (simp add: validateStatus_def)

lemma lookupRow_None_iff: "lookupRow i w = None \<longleftrightarrow> (\<forall>r \<in> set (rows w). id' r \<noteq> Val i)"
  by (auto simp add: lookupRow_def find_None_iff)

lemma lookupRow_SomeD: "lookupRow i w = Some r \<Longrightarrow> r \<in> set (rows w) \<and> id' r = Val i"
  by (auto simp add: lookupRow_def find_Some_iff)

lemma lookupRow_calls [simp]: "lookupRow i (w\<lparr>calls := cs\<rparr>) = lookupRow i w"
  by (simp add: lookupRow_def)

lemma lookupRow_sample:
  "lookupRow 1 sampleWorld = Some (sampleRows ! 0)"
  "lookupRow 2 sampleWorld = Some (sampleRows ! 1)"
  "lookupRow 3 sampleWorld = Some (sampleRows ! 2)"
  "lookupRow 9 sampleWorld = None"
  by (simp_all add: lookupRow_def sampleWorld_def sampleRows_def)

lemma findById_eq:
  "findById i flt w =
     ((case lookupRow i w of
         None \<Rightarrow> Inl NotFound
       | Some r \<Rightarrow> if deletedAt r = Null then Inr r else Inl Gone),
      w\<lparr>calls := calls w @ [FindByIdCall i flt]\<rparr>)"
  by (simp add: findById_def storeFindById_def isDeleted_def split: option.splits)

lemma replaceById_eq:
  "replaceById now i course w =
     (if name course = Null \<or> name course = Val ''''
      then (Inl (BadRequest NameRequired), w)
      else if \<not> validateStatus (status course)
      then (Inl (BadRequest (InvalidStatus (status course))), w)
      else storeReplaceById i (course\<lparr>updatedAt := Val now\<rparr>) w)"
  by (simp add: replaceById_def)

lemma deleteById_eq:
  "deleteById now now' i w =
     (case lookupRow i w of
        None \<Rightarrow> (Inl NotFound, w\<lparr>calls := calls w @ [FindByIdCall i None]\<rparr>)
      | Some r \<Rightarrow>
          if deletedAt r \<noteq> Null then (Inl Gone, w\<lparr>calls := calls w @ [FindByIdCall i None]\<rparr>)
          else replaceById now' i (r\<lparr>deletedAt := Val now\<rparr>)
                 (w\<lparr>calls := calls w @ [FindByIdCall i None]\<rparr>))"
  by (simp add: deleteById_def findById_eq isDeleted_def split: option.splits)

lemma find_replaced:
  "find (\<lambda>r. id' r = Val i) (map (\<lambda>r. if id' r = Val i then c\<lparr>id' := Val i\<rparr> else r) rs)
     = map_option (\<lambda>r. c\<lparr>id' := Val i\<rparr>) (find (\<lambda>r. id' r = Val i) rs)"
  by (induction rs) simp_all

lemma storeReplaceById_found:
  "lookupRow i w = Some r \<Longrightarrow>
     storeReplaceById i c w =
       (Inr (), w\<lparr>rows := map (\<lambda>x. if id' x = Val i then c\<lparr>id' := Val i\<rparr> else x) (rows w),
                 calls := calls w @ [ReplaceByIdCall i c]\<rparr>)"
  by (simp add: storeReplaceById_def)

lemma lookupRow_replaced:
  "lookupRow i w = Some r \<Longrightarrow>
     lookupRow i (snd (storeReplaceById i c w)) = Some (c\<lparr>id' := Val i\<rparr>)"
  by (simp add: storeReplaceById_found) (simp add: lookupRow_def find_replaced)

lemma find_append_None: "find P xs = None \<Longrightarrow> find P (xs @ ys) = find P ys"
  by (induction xs) (simp_all split: if_splits)

lemma create_ok:
  assumes "create now course w = (Inr c, w1)"
  shows "c = course\<lparr>id' := Val (nextId w),
             createdAt := withDefault now (createdAt course),
             updatedAt := withDefault now (updatedAt course),
             deletedAt := (if deletedAt course = Undefined then Null else deletedAt course)\<rparr>"
    and "rows w1 = rows w @ [c]"
    and "\<not> (name c = Null \<or> name c = Val '''')"
    and "validateStatus (status c)"
  using assms by (auto simp add: create_def storeCreate_def Let_def split: if_splits)

lemma rows_create:
  "rows (snd (create now course w)) = rows w
   \<or> (\<exists>r. rows (snd (create now course w)) = rows w @ [r])"
  by (simp add: create_def storeCreate_def Let_def)

lemma rows_find_courses: "rows (snd (find_courses flt w)) = rows w"
  by (simp add: find_courses_def storeFind_def)

lemma rows_findById: "rows (snd (findById i flt w)) = rows w"
  by (simp add: findById_eq)

lemma rows_replaceById:
  "rows (snd (replaceById now i course w)) =
     (if fst (replaceById now i course w) = Inr ()
      then map (\<lambda>x. if id' x = Val i then course\<lparr>id' := Val i, updatedAt := Val now\<rparr> else x)
             (rows w)
      else rows w)"
  by (simp add: replaceById_eq storeReplaceById_def)

lemma rows_deleteById:
  "rows (snd (deleteById now now' i w)) =
     (if fst (deleteById now now' i w) = Inr ()
      then map (\<lambda>x. if id' x = Val i
                     then (the (lookupRow i w))
                            \<lparr>id' := Val i, updatedAt := Val now', deletedAt := Val now\<rparr>
                     else x) (rows w)
      else rows w)"
  by (cases "lookupRow i w")
    (simp_all add: deleteById_eq replaceById_eq storeReplaceById_def)

section \<open>The id generator stays ahead of the table\<close>

lemma idsFresh_iff:
  "idsFresh w \<longleftrightarrow> (\<forall>r \<in> set (rows w). \<forall>j. id' r = Val j \<longrightarrow> j < nextId w)"
  by (auto simp add: idsFresh_def list_all_iff split: jsval.splits)

lemma idsFresh_lookupRow: "idsFresh w \<Longrightarrow> lookupRow (nextId w) w = None"
  by (auto simp add: idsFresh_iff lookupRow_None_iff)

lemma idsFresh_handle: "idsFresh w \<Longrightarrow> idsFresh (handle req w)"
proof (cases req)
  case (Create now course)
  assume "idsFresh w"
  then show ?thesis
    by (auto simp add: Create idsFresh_iff create_def storeCreate_def Let_def)
next
  case (ReplaceById now i course)
  assume "idsFresh w"
  then show ?thesis
    by (auto simp add: ReplaceById idsFresh_iff replaceById_eq storeReplaceById_def)
next
  case (DeleteById now now' i)
  assume "idsFresh w"
  then show ?thesis
    by (auto simp add: DeleteById idsFresh_iff deleteById_eq replaceById_eq storeReplaceById_def
        split: option.splits)
qed (simp_all add: idsFresh_iff find_courses_def storeFind_def findById_eq)

lemma idsFresh_run: "idsFresh w \<Longrightarrow> idsFresh (run reqs w)"
  by (induction reqs arbitrary: w) (simp_all add: idsFresh_handle)

lemma idsFresh_reachable: "idsFresh (run reqs emptyWorld)"
  by (rule idsFresh_run) (simp add: idsFresh_def emptyWorld_def)

section \<open>Validation of name and status\<close>

text \<open>
  C4. An input whose name is \<open>null\<close> or the empty string makes both \<open>create\<close> and
  \<open>replaceById\<close> fail with a 400 Bad Request, and the state is left as it was: no row
  changes and no call to the repository is issued.
\<close>

theorem name_required:
  "name course = Null \<or> name course = Val '''' \<Longrightarrow>
     create now course w = (Inl (BadRequest NameRequired), w)
     \<and> replaceById now i course w = (Inl (BadRequest NameRequired), w)
     \<and> statusCode (BadRequest NameRequired) = 400"
  by (simp add: create_def replaceById_def)

theorem name_required_witness:
  "create 7 (sampleInput\<lparr>name := Val ''''\<rparr>) emptyWorld
     = (Inl (BadRequest NameRequired), emptyWorld)
   \<and> replaceById 7 3 (sampleInput\<lparr>name := Null\<rparr>) emptyWorld
     = (Inl (BadRequest NameRequired), emptyWorld)"
  using name_required [of "sampleInput\<lparr>name := Val ''''\<rparr>" 7 emptyWorld 3]
    name_required [of "sampleInput\<lparr>name := Null\<rparr>" 7 emptyWorld 3]
  by simp

text \<open>
  C5. An input whose status is not one of \<open>scheduled\<close>, \<open>in_production\<close>, \<open>available\<close>
  makes both \<open>create\<close> and \<open>replaceById\<close> fail with a 400 Bad Request (for the name when
  the name is rejected first, for the status otherwise), the state left as it was; a status
  that is one of the three passes \<open>validateStatus\<close>.
\<close>

theorem status_validated:
  "(status course \<notin> {Val ''scheduled'', Val ''in_production'', Val ''available''} \<longrightarrow>
      (\<exists>e. create now course w = (Inl e, w) \<and> statusCode e = 400)
      \<and> (\<exists>e. replaceById now i course w = (Inl e, w) \<and> statusCode e = 400))
   \<and> (st \<in> {Val ''scheduled'', Val ''in_production'', Val ''available''} \<longrightarrow>
      validateStatus st)"
  by (simp add: create_def replaceById_def validateStatus_iff)

theorem status_validated_witness:
  "(\<exists>e. create 7 (sampleInput\<lparr>status := Val ''bogus''\<rparr>) emptyWorld = (Inl e, emptyWorld)
        \<and> statusCode e = 400)
   \<and> (\<exists>e. replaceById 7 3 (sampleInput\<lparr>status := Val ''bogus''\<rparr>) emptyWorld
          = (Inl e, emptyWorld) \<and> statusCode e = 400)
   \<and> validateStatus (Val ''in_production'')"
  using status_validated [of "sampleInput\<lparr>status := Val ''bogus''\<rparr>"
       7 emptyWorld 3 "Val ''in_production''"]
  by (simp add: sampleInput_def)

text \<open>
  C10, as the code has it. The name check of \<open>create\<close> and of \<open>replaceById\<close> raises its
  error exactly when the name is \<open>null\<close> or the empty string. An absent name passes it in
  both, and the request goes to the repository when its status passes \<open>validateStatus\<close>
  as well: \<open>create\<close> returns what the store's create returns, \<open>replaceById\<close> what the
  store's replaceById returns, and the call is in the log.
\<close>

theorem name_check_strict:
  "(fst (create now course w) = Inl (BadRequest NameRequired)
      \<longleftrightarrow> name course = Null \<or> name course = Val '''')
   \<and> (fst (replaceById now i course w) = Inl (BadRequest NameRequired)
      \<longleftrightarrow> name course = Null \<or> name course = Val '''')
   \<and> (name course = Undefined \<and> validateStatus (status course) \<longrightarrow>
        create now course w =
          (Inr (fst (storeCreate now course w)),
           (snd (storeCreate now course w))
             \<lparr>locationHeader := Some (id' (fst (storeCreate now course w)))\<rparr>)
        \<and> calls (snd (create now course w)) = calls w @ [CreateCall course]
        \<and> replaceById now i course w = storeReplaceById i (course\<lparr>updatedAt := Val now\<rparr>) w
        \<and> calls (snd (replaceById now i course w))
            = calls w @ [ReplaceByIdCall i (course\<lparr>updatedAt := Val now\<rparr>)])"
  by (auto simp add: create_def replaceById_def storeCreate_def storeReplaceById_def Let_def
      split: prod.splits)

theorem name_check_strict_witness:
  "fst (create 7 (sampleInput\<lparr>name := Undefined\<rparr>) emptyWorld)
     = Inr \<lparr>id' = Val 1, name = Undefined, status = Val ''scheduled'',
       createdAt = Val 7, updatedAt = Val 7, deletedAt = Null\<rparr>
   \<and> replaceById 7 3 (sampleInput\<lparr>name := Undefined\<rparr>) emptyWorld
     = (Inl NotFound, emptyWorld\<lparr>calls := [ReplaceByIdCall 3
          \<lparr>id' = Undefined, name = Undefined, status = Val ''scheduled'',
           createdAt = Undefined, updatedAt = Val 7, deletedAt = Undefined\<rparr>]\<rparr>)"
  using name_check_strict [of 7 "sampleInput\<lparr>name := Undefined\<rparr>" emptyWorld 3]
  by (simp add: sampleInput_def validateStatus_def storeCreate_def storeReplaceById_def
      lookupRow_def emptyWorld_def withDefault_def Let_def)

text \<open>
  C10, as stated, fails on the forwarding: an input with an absent name and the status
  \<open>bogus\<close> passes the name check and is then rejected for its status, in \<open>create\<close> and
  in \<open>replaceById\<close>; the state is left as it was and no call reaches the repository.
\<close>

theorem absent_name_invalid_status_counterexample:
  "name (sampleInput\<lparr>name := Undefined, status := Val ''bogus''\<rparr>) = Undefined
   \<and> create 7 (sampleInput\<lparr>name := Undefined, status := Val ''bogus''\<rparr>) sampleWorld
       = (Inl (BadRequest (InvalidStatus (Val ''bogus''))), sampleWorld)
   \<and> replaceById 7 1 (sampleInput\<lparr>name := Undefined, status := Val ''bogus''\<rparr>) sampleWorld
       = (Inl (BadRequest (InvalidStatus (Val ''bogus''))), sampleWorld)
   \<and> calls sampleWorld = []"
  by (simp add: create_def replaceById_def validateStatus_def sampleInput_def sampleWorld_def)

section \<open>Reading one course\<close>

text \<open>
  C7. \<open>getById\<close> (the handler \<open>findById\<close>, called with the id alone): when no stored
  record has the id it fails with NotFound; when the record stored under the id has a
  \<open>deletedAt\<close> other than \<open>null\<close> it fails with Gone, an error that carries no record;
  otherwise it returns the stored record whole. The table is not changed.
\<close>

theorem findById_cases:
  "((\<forall>r \<in> set (rows w). id' r \<noteq> Val i) \<longrightarrow> fst (findById i None w) = Inl NotFound)
   \<and> (lookupRow i w = Some r \<and> deletedAt r \<noteq> Null \<longrightarrow> fst (findById i None w) = Inl Gone)
   \<and> (lookupRow i w = Some r \<and> deletedAt r = Null \<longrightarrow> fst (findById i None w) = Inr r)
   \<and> rows (snd (findById i None w)) = rows w"
  by (simp add: findById_eq lookupRow_None_iff [symmetric])

theorem findById_cases_witness:
  "fst (findById 9 None sampleWorld) = Inl NotFound
   \<and> fst (findById 2 None sampleWorld) = Inl Gone
   \<and> fst (findById 1 None sampleWorld) = Inr (sampleRows ! 0)"
  using findById_cases [of sampleWorld 9 undefined]
    findById_cases [of sampleWorld 2 "sampleRows ! 1"]
    findById_cases [of sampleWorld 1 "sampleRows ! 0"]
  by (simp add: lookupRow_sample lookupRow_None_iff [symmetric] sampleRows_def)

text \<open>
  C9. \<open>isDeleted\<close> is the test that \<open>deletedAt\<close> is not strictly \<open>null\<close>, so a stored
  record whose \<open>deletedAt\<close> is absent counts as deleted and \<open>getById\<close> fails with Gone.
\<close>

theorem undefined_deletedAt_is_gone:
  "(isDeleted course \<longleftrightarrow> deletedAt course \<noteq> Null)
   \<and> (lookupRow i w = Some r \<and> deletedAt r = Undefined \<longrightarrow>
        isDeleted r \<and> fst (findById i None w) = Inl Gone)"
  by (simp add: findById_eq isDeleted_def)

theorem undefined_deletedAt_is_gone_witness:
  "deletedAt (sampleRows ! 2) = Undefined
   \<and> isDeleted (sampleRows ! 2) \<and> fst (findById 3 None sampleWorld) = Inl Gone"
  using undefined_deletedAt_is_gone [of "sampleRows ! 2" 3 sampleWorld "sampleRows ! 2"]
  by (simp add: lookupRow_sample sampleRows_def)

section \<open>Replacing a course\<close>

text \<open>
  C1, as the code has it. \<open>replaceById\<close> never reads the stored record, so its
  \<open>deletedAt\<close> does not protect it. A soft-deleted record stays as it is only when the
  call is rejected for its input (name \<open>null\<close> or empty, or status not one of the three
  values: 400, state unchanged). A call with a valid name and status succeeds and the record
  stored under the id becomes the input with \<open>updatedAt\<close> set to the clock reading, as for
  an active record.
\<close>

theorem replaceById_overwrites_deleted:
  "lookupRow i w = Some r \<and> isDeleted r \<longrightarrow>
     ((name course = Null \<or> name course = Val '''' \<or> \<not> validateStatus (status course)) \<longrightarrow>
        (\<exists>e. replaceById now i course w = (Inl e, w) \<and> statusCode e = 400))
     \<and> (\<not> (name course = Null \<or> name course = Val '''') \<and> validateStatus (status course) \<longrightarrow>
        fst (replaceById now i course w) = Inr ()
        \<and> rows (snd (replaceById now i course w))
            = map (\<lambda>x. if id' x = Val i then course\<lparr>id' := Val i, updatedAt := Val now\<rparr> else x)
                (rows w)
        \<and> lookupRow i (snd (replaceById now i course w))
            = Some (course\<lparr>id' := Val i, updatedAt := Val now\<rparr>))"
  using lookupRow_replaced [of i w r "course\<lparr>updatedAt := Val now\<rparr>"]
  by (simp add: replaceById_eq storeReplaceById_found)

theorem replaceById_overwrites_deleted_witness:
  "fst (replaceById 50 2 (sampleInput\<lparr>deletedAt := Val 40\<rparr>) sampleWorld) = Inr ()
   \<and> (\<exists>e. replaceById 50 2 (sampleInput\<lparr>name := Val '''', deletedAt := Val 40\<rparr>) sampleWorld
        = (Inl e, sampleWorld) \<and> statusCode e = 400)"
  using replaceById_overwrites_deleted [of 2 sampleWorld "sampleRows ! 1"
      "sampleInput\<lparr>deletedAt := Val 40\<rparr>" 50]
    replaceById_overwrites_deleted [of 2 sampleWorld "sampleRows ! 1"
      "sampleInput\<lparr>name := Val '''', deletedAt := Val 40\<rparr>" 50]
  by (simp add: lookupRow_sample isDeleted_def validateStatus_def sampleRows_def sampleInput_def)

text \<open>
  C1, as stated, fails: course 2 of the sample table is soft-deleted (\<open>deletedAt\<close> is 40),
  and a \<open>replaceById\<close> with a valid name and status succeeds and renames it.
\<close>

theorem replaceById_deleted_counterexample:
  "lookupRow 2 sampleWorld = Some (sampleRows ! 1)
   \<and> deletedAt (sampleRows ! 1) = Val 40
   \<and> name (sampleRows ! 1) = Val ''Databases''
   \<and> fst (replaceById 50 2 \<lparr>id' = Undefined, name = Val ''Renamed'', status = Val ''scheduled'',
        createdAt = Undefined, updatedAt = Undefined, deletedAt = Val 40\<rparr> sampleWorld) = Inr ()
   \<and> lookupRow 2 (snd (replaceById 50 2 \<lparr>id' = Undefined, name = Val ''Renamed'',
        status = Val ''scheduled'', createdAt = Undefined, updatedAt = Undefined,
        deletedAt = Val 40\<rparr> sampleWorld))
      = Some \<lparr>id' = Val 2, name = Val ''Renamed'', status = Val ''scheduled'',
          createdAt = Undefined, updatedAt = Val 50, deletedAt = Val 40\<rparr>"
  by (simp add: replaceById_eq validateStatus_def storeReplaceById_def lookupRow_def
      sampleWorld_def sampleRows_def)

section \<open>Deleting a course\<close>

text \<open>
  C3, as the code has it. A successful \<open>deleteById\<close> of an active record writes back the
  fetched record with two fields changed: \<open>deletedAt\<close>, set to the clock reading taken in
  \<open>deleteById\<close>, and \<open>updatedAt\<close>, set to the clock reading taken in the \<open>replaceById\<close>
  that performs the write. The id, name, status and \<open>createdAt\<close> are those of the fetched
  record. This is the record handed to the repository and the record stored afterwards.
\<close>

theorem deleteById_writes:
  "lookupRow i w = Some course \<and> \<not> isDeleted course
     \<and> fst (deleteById now now' i w) = Inr () \<longrightarrow>
     calls (snd (deleteById now now' i w))
       = calls w @ [FindByIdCall i None,
                    ReplaceByIdCall i (course\<lparr>deletedAt := Val now, updatedAt := Val now'\<rparr>)]
     \<and> lookupRow i (snd (deleteById now now' i w))
       = Some (course\<lparr>deletedAt := Val now, updatedAt := Val now'\<rparr>)"
proof (intro impI)
  assume h: "lookupRow i w = Some course \<and> \<not> isDeleted course
     \<and> fst (deleteById now now' i w) = Inr ()"
  let ?w = "w\<lparr>calls := calls w @ [FindByIdCall i None]\<rparr>"
  let ?c = "course\<lparr>deletedAt := Val now, updatedAt := Val now'\<rparr>"
  from h have idc: "id' course = Val i"
    using lookupRow_SomeD [of i w course] by simp
  from h have d: "deleteById now now' i w = replaceById now' i (course\<lparr>deletedAt := Val now\<rparr>) ?w"
    by (simp add: deleteById_eq isDeleted_def)
  with h have ok: "fst (replaceById now' i (course\<lparr>deletedAt := Val now\<rparr>) ?w) = Inr ()"
    by simp
  then have r: "replaceById now' i (course\<lparr>deletedAt := Val now\<rparr>) ?w = storeReplaceById i ?c ?w"
    by (simp add: replaceById_eq split: if_splits)
  from h have l: "lookupRow i ?w = Some course"
    by simp
  have c: "?c\<lparr>id' := Val i\<rparr> = ?c"
    using idc by simp
  show "calls (snd (deleteById now now' i w))
       = calls w @ [FindByIdCall i None, ReplaceByIdCall i ?c]
     \<and> lookupRow i (snd (deleteById now now' i w)) = Some ?c"
    using lookupRow_replaced [OF l, of ?c] c
    by (simp add: d r storeReplaceById_found [OF l])
qed

theorem deleteById_writes_witness:
  "lookupRow 1 (snd (deleteById 50 51 1 sampleWorld))
     = Some \<lparr>id' = Val 1, name = Val ''Intro to Go'', status = Val ''scheduled'',
           createdAt = Val 30, updatedAt = Val 51, deletedAt = Val 50\<rparr>"
  using deleteById_writes [of 1 sampleWorld "sampleRows ! 0" 50 51]
  by (simp add: lookupRow_sample isDeleted_def sampleRows_def deleteById_eq replaceById_eq
      validateStatus_def storeReplaceById_def)

text \<open>
  C3, as stated, fails on \<open>updatedAt\<close>: course 1 of the sample table is active with
  \<open>updatedAt\<close> 30; \<open>deleteById\<close> succeeds and the record it hands to the repository has
  \<open>updatedAt\<close> 51, the clock reading of the write.
\<close>

theorem deleteById_updatedAt_counterexample:
  "lookupRow 1 sampleWorld = Some (sampleRows ! 0)
   \<and> deletedAt (sampleRows ! 0) = Null
   \<and> updatedAt (sampleRows ! 0) = Val 30
   \<and> fst (deleteById 50 51 1 sampleWorld) = Inr ()
   \<and> calls (snd (deleteById 50 51 1 sampleWorld))
      = [FindByIdCall 1 None,
         ReplaceByIdCall 1 \<lparr>id' = Val 1, name = Val ''Intro to Go'', status = Val ''scheduled'',
           createdAt = Val 30, updatedAt = Val 51, deletedAt = Val 50\<rparr>]"
  by (simp add: deleteById_eq replaceById_eq validateStatus_def storeReplaceById_def
      lookupRow_def sampleWorld_def sampleRows_def)

text \<open>
  C8, as the code has it. A record that \<open>create\<close> returned active (its input carried no
  \<open>deletedAt\<close>, or \<open>null\<close>), in a table whose ids all came from the generator, is deleted
  twice with nothing in between. The first \<open>deleteById\<close> succeeds and stores the record
  with \<open>deletedAt\<close> (and \<open>updatedAt\<close>) set; the second fails with Gone and leaves the
  table as the first left it.
\<close>

theorem double_delete:
  "idsFresh w \<and> create now0 course w = (Inr c, w1) \<and> \<not> isDeleted c \<and> id' c = Val i \<longrightarrow>
     fst (deleteById now1 now1' i w1) = Inr ()
     \<and> lookupRow i (snd (deleteById now1 now1' i w1))
         = Some (c\<lparr>deletedAt := Val now1, updatedAt := Val now1'\<rparr>)
     \<and> fst (deleteById now2 now2' i (snd (deleteById now1 now1' i w1))) = Inl Gone
     \<and> rows (snd (deleteById now2 now2' i (snd (deleteById now1 now1' i w1))))
         = rows (snd (deleteById now1 now1' i w1))"
proof (intro impI)
  assume h: "idsFresh w \<and> create now0 course w = (Inr c, w1) \<and> \<not> isDeleted c \<and> id' c = Val i"
  let ?w = "w1\<lparr>calls := calls w1 @ [FindByIdCall i None]\<rparr>"
  let ?c = "c\<lparr>deletedAt := Val now1, updatedAt := Val now1'\<rparr>"
  let ?w2 = "snd (deleteById now1 now1' i w1)"
  from h have cr: "create now0 course w = (Inr c, w1)"
    by simp
  from h create_ok(1) [OF cr] have i: "i = nextId w"
    by simp
  from h have "find (\<lambda>r. id' r = Val i) (rows w) = None"
    using idsFresh_lookupRow [of w] by (simp add: i lookupRow_def)
  then have l: "lookupRow i w1 = Some c"
    using h by (simp add: lookupRow_def create_ok(2) [OF cr] find_append_None)
  then have l': "lookupRow i ?w = Some c"
    by simp
  have d: "deleteById now1 now1' i w1 = storeReplaceById i ?c ?w"
    using h l create_ok(3,4) [OF cr]
    by (simp add: deleteById_eq replaceById_eq isDeleted_def)
  have c: "?c\<lparr>id' := Val i\<rparr> = ?c"
    using h by simp
  have l2: "lookupRow i ?w2 = Some ?c"
    using lookupRow_replaced [OF l', of ?c] by (simp add: d c)
  show "fst (deleteById now1 now1' i w1) = Inr ()
     \<and> lookupRow i ?w2 = Some ?c
     \<and> fst (deleteById now2 now2' i ?w2) = Inl Gone
     \<and> rows (snd (deleteById now2 now2' i ?w2)) = rows ?w2"
    using l2 by (simp add: deleteById_eq [of now2 now2' i ?w2])
      (simp add: d storeReplaceById_found [OF l'])
qed

theorem double_delete_witness:
  "fst (deleteById 61 62 5 (snd (create 60 sampleInput sampleWorld))) = Inr ()
   \<and> fst (deleteById 63 64 5
        (snd (deleteById 61 62 5 (snd (create 60 sampleInput sampleWorld))))) = Inl Gone"
  using double_delete [of sampleWorld 60 sampleInput
      "\<lparr>id' = Val 5, name = Val ''Compilers'', status = Val ''scheduled'',
       createdAt = Val 60, updatedAt = Val 60, deletedAt = Null\<rparr>"
      "snd (create 60 sampleInput sampleWorld)" 5 61 62 63 64]
  by (simp add: idsFresh_def sampleWorld_def sampleRows_def sampleInput_def create_def
      validateStatus_def storeCreate_def Let_def withDefault_def isDeleted_def)

text \<open>
  C8, as stated, fails for a record created with a \<open>deletedAt\<close>: \<open>create\<close> hands the
  input to the repository as it is, the record is stored deleted, and already the first
  \<open>deleteById\<close> fails with Gone.
\<close>

theorem created_deleted_counterexample:
  "fst (create 60 (sampleInput\<lparr>deletedAt := Val 3\<rparr>) sampleWorld)
     = Inr \<lparr>id' = Val 5, name = Val ''Compilers'', status = Val ''scheduled'',
         createdAt = Val 60, updatedAt = Val 60, deletedAt = Val 3\<rparr>
   \<and> fst (deleteById 61 62 5 (snd (create 60 (sampleInput\<lparr>deletedAt := Val 3\<rparr>) sampleWorld)))
     = Inl Gone"
  by (simp add: create_def validateStatus_def storeCreate_def Let_def withDefault_def
      deleteById_eq lookupRow_def sampleInput_def sampleWorld_def sampleRows_def)

section \<open>The life cycle of a record\<close>

lemma staysDeleted_refl: "staysDeleted rs rs"
  by (induction rs) simp_all

lemma staysDeleted_append: "staysDeleted rs (rs @ extra)"
  by (induction rs) simp_all

lemma staysDeleted_map:
  "(\<And>r. id' (f r) = id' r \<and> (isDeleted r \<longrightarrow> isDeleted (f r))) \<Longrightarrow> staysDeleted rs (map f rs)"
  by (induction rs) simp_all

lemma staysDeleted_trans:
  "staysDeleted a b \<Longrightarrow> staysDeleted b c \<Longrightarrow> staysDeleted a c"
proof (induction a arbitrary: b c)
  case Nil
  then show ?case by simp
next
  case (Cons r a)
  then obtain r' b' where b: "b = r' # b'"
    by (cases b) simp_all
  with Cons.prems obtain r'' c' where c: "c = r'' # c'"
    by (cases c) simp_all
  from Cons.prems Cons.IH [of b' c'] show ?case
    by (simp add: b c)
qed

lemma handle_staysDeleted:
  "\<not> isReplace req \<Longrightarrow> staysDeleted (rows w) (rows (handle req w))"
proof (cases req)
  case (Create now course)
  then show ?thesis
    using rows_create [of now course w]
    by (auto simp add: staysDeleted_refl staysDeleted_append)
next
  case (DeleteById now now' i)
  then show ?thesis
    by (simp add: rows_deleteById staysDeleted_refl staysDeleted_map isDeleted_def)
qed (simp_all add: rows_find_courses rows_findById staysDeleted_refl)

lemma run_staysDeleted:
  "list_all (\<lambda>q. \<not> isReplace q) reqs \<Longrightarrow> staysDeleted (rows w) (rows (run reqs w))"
proof (induction reqs arbitrary: w)
  case Nil
  then show ?case by (simp add: staysDeleted_refl)
next
  case (Cons req reqs)
  then show ?case
    using staysDeleted_trans [OF handle_staysDeleted [of req w] Cons.IH [of "handle req w"]]
    by simp
qed

lemma handle_prefix:
  "\<not> isReplace req \<Longrightarrow> \<not> isDelete req \<Longrightarrow> prefix (rows w) (rows (handle req w))"
proof (cases req)
  case (Create now course)
  then show ?thesis
    using rows_create [of now course w] by auto
qed (simp_all add: rows_find_courses rows_findById)

lemma run_prefix:
  "list_all (\<lambda>q. \<not> isReplace q \<and> \<not> isDelete q) reqs \<Longrightarrow> prefix (rows w) (rows (run reqs w))"
proof (induction reqs arbitrary: w)
  case Nil
  then show ?case by simp
next
  case (Cons req reqs)
  then have "prefix (rows w) (rows (handle req w))"
    and "prefix (rows (handle req w)) (rows (run reqs (handle req w)))"
    by (simp_all add: handle_prefix)
  then show ?case
    using prefix_order.trans by auto
qed

text \<open>
  C2, as the code has it. In an execution without \<open>replaceById\<close> requests every stored
  record keeps its place and id and, once deleted, stays deleted; without \<open>replaceById\<close>
  and \<open>deleteById\<close> requests the stored records do not change at all, so there only
  \<open>deleteById\<close> moves a record from active to deleted. \<open>deleteById\<close> on a deleted record
  fails with Gone and leaves the table as it was. A successful \<open>replaceById\<close> stores the
  \<open>deletedAt\<close> that its input carries, whatever the stored one was.
\<close>

theorem deleted_is_one_way:
  "(list_all (\<lambda>q. \<not> isReplace q) reqs \<longrightarrow> staysDeleted (rows w) (rows (run reqs w)))
   \<and> (list_all (\<lambda>q. \<not> isReplace q \<and> \<not> isDelete q) reqs \<longrightarrow>
        prefix (rows w) (rows (run reqs w)))
   \<and> (lookupRow i w = Some r \<and> isDeleted r \<longrightarrow>
        fst (deleteById now now' i w) = Inl Gone
        \<and> rows (snd (deleteById now now' i w)) = rows w)
   \<and> (fst (replaceById now i course w) = Inr () \<longrightarrow>
        map_option deletedAt (lookupRow i (snd (replaceById now i course w)))
          = Some (deletedAt course))"
proof (intro conjI impI)
  assume "fst (replaceById now i course w) = Inr ()"
  then have s: "replaceById now i course w = storeReplaceById i (course\<lparr>updatedAt := Val now\<rparr>) w"
    and "fst (storeReplaceById i (course\<lparr>updatedAt := Val now\<rparr>) w) = Inr ()"
    by (simp_all add: replaceById_eq split: if_splits)
  then obtain r' where "lookupRow i w = Some r'"
    by (cases "lookupRow i w") (simp_all add: storeReplaceById_def)
  then show "map_option deletedAt (lookupRow i (snd (replaceById now i course w)))
          = Some (deletedAt course)"
    using lookupRow_replaced [of i w r' "course\<lparr>updatedAt := Val now\<rparr>"] by (simp add: s)
qed (simp_all add: run_staysDeleted run_prefix deleteById_eq isDeleted_def)

theorem deleted_is_one_way_witness:
  "staysDeleted sampleRows (rows (run [DeleteById 50 51 1, FindById 1 None] sampleWorld))
   \<and> prefix sampleRows (rows (run [Find None, FindById 2 None] sampleWorld))
   \<and> fst (deleteById 50 51 2 sampleWorld) = Inl Gone
   \<and> rows (snd (deleteById 50 51 2 sampleWorld)) = sampleRows
   \<and> map_option deletedAt (lookupRow 2 (snd (replaceById 50 2
        (sampleInput\<lparr>deletedAt := Null\<rparr>) sampleWorld))) = Some Null"
  using deleted_is_one_way [of "[DeleteById 50 51 1, FindById 1 None]" sampleWorld
      2 "sampleRows ! 1" 50 51 "sampleInput\<lparr>deletedAt := Null\<rparr>"]
    deleted_is_one_way [of "[Find None, FindById 2 None]" sampleWorld
      2 "sampleRows ! 1" 50 51 "sampleInput\<lparr>deletedAt := Null\<rparr>"]
  by (simp add: lookupRow_sample isDeleted_def replaceById_eq validateStatus_def
      storeReplaceById_def sampleInput_def)
    (simp add: sampleWorld_def sampleRows_def)

text \<open>
  C2, as stated, fails both ways through \<open>replaceById\<close>: on the sample table it returns
  the deleted course 2 to active (its input carries \<open>deletedAt: null\<close>), and it deletes the
  active course 1 without \<open>deleteById\<close> (its input carries a \<open>deletedAt\<close>).
\<close>

theorem replaceById_sets_deletedAt_counterexample:
  "map_option deletedAt (lookupRow 2 sampleWorld) = Some (Val 40)
   \<and> map_option deletedAt (lookupRow 2 (snd (replaceById 50 2
        \<lparr>id' = Undefined, name = Val ''Databases'', status = Val ''available'',
         createdAt = Val 10, updatedAt = Undefined, deletedAt = Null\<rparr> sampleWorld)))
      = Some Null
   \<and> map_option deletedAt (lookupRow 1 sampleWorld) = Some Null
   \<and> map_option deletedAt (lookupRow 1 (snd (replaceById 50 1
        \<lparr>id' = Undefined, name = Val ''Intro to Go'', status = Val ''scheduled'',
         createdAt = Val 30, updatedAt = Undefined, deletedAt = Val 50\<rparr> sampleWorld)))
      = Some (Val 50)"
  by (simp add: replaceById_eq validateStatus_def storeReplaceById_def lookupRow_def
      sampleWorld_def sampleRows_def)

section \<open>Listing the courses\<close>

text \<open>
  Whatever filter the caller supplies, the filter that reaches the repository has the
  controller's \<open>where\<close>, \<open>order\<close> and \<open>fields\<close>; every other property of the caller's
  filter, and every property of the caller's \<open>where\<close>, is passed along under its name.
\<close>

lemma map_of_setProp: "map_of (setProp k v t) k' = (if k' = k then Some v else map_of t k')"
  by (simp add: setProp_def update_conv')

lemma findFilter_where:
  "map_of (findFilter flt) ''where'' = Some (JObj [(''deletedAt'', JObj [(''eq'', JNull)])])"
  by (simp add: findFilter_def map_of_setProp)

lemma findFilter_order:
  "map_of (findFilter flt) ''order'' = Some (JArr [JStr ''createdAt ASC''])"
  by (simp add: findFilter_def map_of_setProp)

lemma findFilter_fields:
  "map_of (findFilter flt) ''fields'' = Some (JObj [(''id'', JBool True), (''name'', JBool True)])"
  by (simp add: findFilter_def map_of_setProp)

lemma findFilter_other:
  "k \<noteq> ''where'' \<Longrightarrow> k \<noteq> ''order'' \<Longrightarrow> k \<noteq> ''fields'' \<Longrightarrow>
     map_of (findFilter flt) k = map_of (spread (spread [] (map_option JObj flt)) (whereOf flt)) k"
  by (simp add: findFilter_def map_of_setProp)

lemma whereHolds_deletedAt_null:
  "whereHolds (Some (JObj [(''deletedAt'', JObj [(''eq'', JNull)])])) = (\<lambda>r. deletedAt r = Null)"
  by (rule ext) (simp add: deletedAtEq_def split: jsval.splits)

lemma project_id_name:
  "project (Some (JObj [(''id'', JBool True), (''name'', JBool True)])) =
     (\<lambda>r. \<lparr>id' = id' r, name = name r, status = Undefined,
      createdAt = Undefined, updatedAt = Undefined, deletedAt = Undefined\<rparr>)"
  by (rule ext) (simp add: keepField_def)

lemma createdKey_le: "createdKey (Val a) \<le> createdKey (Val b) \<longleftrightarrow> a \<le> b"
  by simp

lemma find_courses_eq:
  "find_courses flt w =
     (map (\<lambda>r. \<lparr>id' = id' r, name = name r, status = Undefined,
                createdAt = Undefined, updatedAt = Undefined, deletedAt = Undefined\<rparr>)
        (sort_key (\<lambda>r. createdKey (createdAt r)) (filter (\<lambda>r. deletedAt r = Null) (rows w))),
      w\<lparr>calls := calls w @ [FindCall (findFilter flt)]\<rparr>)"
  by (simp add: find_courses_def storeFind_def findFilter_where findFilter_order
      findFilter_fields whereHolds_deletedAt_null project_id_name orderRows_def)

text \<open>
  C6. For every table and every filter supplied by the caller, \<open>find\<close> returns the
  records whose \<open>deletedAt\<close> is \<open>null\<close>, each of them once and no other record, in
  ascending order of \<open>createdAt\<close>, each reduced to its id and name; no soft-deleted record
  is among them, and the table is not changed.
\<close>

theorem find_courses_lists_active:
  "\<exists>xs. fst (find_courses flt w)
          = map (\<lambda>r. \<lparr>id' = id' r, name = name r, status = Undefined,
                      createdAt = Undefined, updatedAt = Undefined, deletedAt = Undefined\<rparr>) xs
        \<and> mset xs = mset (filter (\<lambda>r. deletedAt r = Null) (rows w))
        \<and> sorted (map (\<lambda>r. createdKey (createdAt r)) xs)
        \<and> filter isDeleted xs = []
        \<and> rows (snd (find_courses flt w)) = rows w"
proof -
  let ?xs = "sort_key (\<lambda>r. createdKey (createdAt r)) (filter (\<lambda>r. deletedAt r = Null) (rows w))"
  have "filter isDeleted ?xs = []"
    by (simp add: filter_empty_conv isDeleted_def)
  moreover have "sorted (map (\<lambda>r. createdKey (createdAt r)) ?xs)"
    by (rule sorted_sort_key)
  moreover have "mset ?xs = mset (filter (\<lambda>r. deletedAt r = Null) (rows w))"
    by simp
  moreover have "fst (find_courses flt w)
      = map (\<lambda>r. \<lparr>id' = id' r, name = name r, status = Undefined,
                      createdAt = Undefined, updatedAt = Undefined, deletedAt = Undefined\<rparr>) ?xs"
    and "rows (snd (find_courses flt w)) = rows w"
    by (simp_all add: find_courses_eq)
  ultimately show ?thesis
    by (intro exI [of _ ?xs] conjI)
qed

text \<open>
  On the sample table, with a caller's filter that carries a \<open>limit\<close> and a \<open>where\<close>:
  the two active courses, oldest first.
\<close>

lemma find_courses_sample:
  "fst (find_courses (Some [(''limit'', JNum 1), (''where'', JObj [(''name'', JStr ''x'')])])
          sampleWorld)
     = [\<lparr>id' = Val 4, name = Val ''Algebra'', status = Undefined,
         createdAt = Undefined, updatedAt = Undefined, deletedAt = Undefined\<rparr>,
        \<lparr>id' = Val 1, name = Val ''Intro to Go'', status = Undefined,
         createdAt = Undefined, updatedAt = Undefined, deletedAt = Undefined\<rparr>]"
  by (simp add: find_courses_eq sampleWorld_def sampleRows_def)

lemma findFilter_sample:
  "findFilter (Some [(''limit'', JNum 1), (''where'', JObj [(''name'', JStr ''x'')])])
     = [(''limit'', JNum 1),
        (''where'', JObj [(''deletedAt'', JObj [(''eq'', JNull)])]),
        (''name'', JStr ''x''),
        (''order'', JArr [JStr ''createdAt ASC'']),
        (''fields'', JObj [(''id'', JBool True), (''name'', JBool True)])]"
  by (simp add: findFilter_def setProp_def spread_def whereOf_def)

end
